theory Spec2Isabelle
  imports Complex_Main
begin

section \<open>JavaScript values and numbers\<close>

text \<open>
  The grade calculator of \<^verbatim>\<open>src/grade-calculator/script.js\<close> exists twice in the source:
  a plain script (\<^verbatim>\<open>calculerMoyenne\<close>, \<^verbatim>\<open>getStyleMoyenne\<close>, \<^verbatim>\<open>updateStats\<close>) and a React
  component (\<^verbatim>\<open>calculateAverage\<close>, \<^verbatim>\<open>getStyleParams\<close> and the computed values
  \<^verbatim>\<open>totalCoef\<close>, \<^verbatim>\<open>totalPoints\<close>, \<^verbatim>\<open>generalAvg\<close>, \<^verbatim>\<open>validatedCount\<close>, \<^verbatim>\<open>dangerCount\<close>).
  Both are embedded here, together with the part of the language they rely on:
  \<^verbatim>\<open>parseFloat\<close>, \<^verbatim>\<open>isNaN\<close>, \<^verbatim>\<open>toFixed(2)\<close>, the arithmetic and the comparisons of Numbers.

  A Number is \<open>NaN\<close>, one of the two infinities, or a finite value. Finite values are exact
  rationals: the rounding of IEEE doubles to 53 bits, their overflow to Infinity and the
  sign of zero are not modelled. The decimal constants of the source (\<^verbatim>\<open>0.3\<close>, \<^verbatim>\<open>0.2\<close>, ...)
  are the rationals they denote.
\<close>

datatype number = NaN | PosInf | NegInf | Fin rat

text \<open>The primitive values a grade field can hold after \<^verbatim>\<open>JSON.parse\<close> or a form input.
  A property that an entry does not have reads as \<open>JUndefined\<close>.\<close>

datatype jsval = JUndefined | JNull | JBool bool | JNum number | JStr string

fun nsign :: "number \<Rightarrow> int" where
  "nsign NaN = 0"
| "nsign PosInf = 1"
| "nsign NegInf = - 1"
| "nsign (Fin x) = (if x < 0 then - 1 else if x = 0 then 0 else 1)"

fun nneg :: "number \<Rightarrow> number" where
  "nneg NaN = NaN"
| "nneg PosInf = NegInf"
| "nneg NegInf = PosInf"
| "nneg (Fin x) = Fin (- x)"

text \<open>Addition and multiplication of Numbers: \<open>NaN\<close> is contagious, \<^verbatim>\<open>Infinity - Infinity\<close>
  and \<^verbatim>\<open>Infinity * 0\<close> are \<open>NaN\<close>.\<close>

instantiation number :: "{plus, times}"
begin

fun plus_number :: "number \<Rightarrow> number \<Rightarrow> number" where
  "plus_number (Fin x) (Fin y) = Fin (x + y)"
| "plus_number NaN _ = NaN"
| "plus_number _ NaN = NaN"
| "plus_number PosInf NegInf = NaN"
| "plus_number NegInf PosInf = NaN"
| "plus_number PosInf _ = PosInf"
| "plus_number NegInf _ = NegInf"
| "plus_number (Fin x) PosInf = PosInf"
| "plus_number (Fin x) NegInf = NegInf"

fun times_number :: "number \<Rightarrow> number \<Rightarrow> number" where
  "times_number (Fin x) (Fin y) = Fin (x * y)"
| "times_number NaN _ = NaN"
| "times_number _ NaN = NaN"
| "times_number a b =
     (let s = nsign a * nsign b
      in if s = 0 then NaN else if 0 < s then PosInf else NegInf)"

instance ..

end

text \<open>Division is only reached behind the guard \<^verbatim>\<open>totalCoef > 0\<close>; a zero divisor is read
  as \<open>+0\<close>.\<close>

fun ndiv :: "number \<Rightarrow> number \<Rightarrow> number" where
  "ndiv NaN _ = NaN"
| "ndiv _ NaN = NaN"
| "ndiv (Fin x) (Fin y) =
     (if y = 0 then (if x = 0 then NaN else if 0 < x then PosInf else NegInf)
      else Fin (x / y))"
| "ndiv (Fin x) _ = Fin 0"
| "ndiv a (Fin y) = (if 0 \<le> y then a else nneg a)"
| "ndiv _ _ = NaN"

text \<open>The relational operators: every comparison with \<open>NaN\<close> is false.\<close>

fun nless :: "number \<Rightarrow> number \<Rightarrow> bool" where
  "nless NaN _ = False"
| "nless _ NaN = False"
| "nless (Fin x) (Fin y) = (x < y)"
| "nless PosInf _ = False"
| "nless _ PosInf = True"
| "nless _ NegInf = False"
| "nless NegInf _ = True"

definition ngt :: "number \<Rightarrow> number \<Rightarrow> bool" where
  "ngt a b = nless b a"

definition nge :: "number \<Rightarrow> number \<Rightarrow> bool" where
  "nge a b = (a \<noteq> NaN \<and> b \<noteq> NaN \<and> \<not> nless a b)"

text \<open>\<^verbatim>\<open>x || 0\<close> on a Number: \<open>NaN\<close> and zero are falsy.\<close>

definition orZero :: "number \<Rightarrow> number" where
  "orZero x = (if x = NaN \<or> x = Fin 0 then Fin 0 else x)"

section \<open>Strings and numbers\<close>

text \<open>Strings are lists of code units below 256. White space is TAB, LF, VT, FF, CR,
  SP and NBSP.\<close>

definition isWhite :: "char \<Rightarrow> bool" where
  "isWhite c = (of_char c \<in> {9, 10, 11, 12, 13, 32, 160 :: nat})"

definition isDigit :: "char \<Rightarrow> bool" where
  "isDigit c = (48 \<le> (of_char c :: nat) \<and> (of_char c :: nat) \<le> 57)"

definition digitVal :: "char \<Rightarrow> nat" where
  "digitVal c = of_char c - 48"

definition digitChar :: "nat \<Rightarrow> char" where
  "digitChar d = char_of (48 + d)"

definition digitsVal :: "string \<Rightarrow> nat" where
  "digitsVal ds = foldl (\<lambda>a c. 10 * a + digitVal c) 0 ds"

definition pow10 :: "int \<Rightarrow> rat" where
  "pow10 e = (if 0 \<le> e then 10 ^ nat e else 1 / 10 ^ nat (- e))"

text \<open>\<open>ExponentPart\<close>: \<^verbatim>\<open>e\<close> or \<^verbatim>\<open>E\<close>, an optional sign and at least one digit. The
  result is the exponent and the rest of the string; without a well-formed exponent
  nothing is consumed.\<close>

definition expPart :: "string \<Rightarrow> int \<times> string" where
  "expPart s =
     (case s of
        [] \<Rightarrow> (0, s)
      | c # r \<Rightarrow>
          if c = CHR ''e'' \<or> c = CHR ''E'' then
            (let neg = (case r of [] \<Rightarrow> False | d # _ \<Rightarrow> d = CHR ''-'');
                 r' = (case r of [] \<Rightarrow> r | d # t \<Rightarrow> if d = CHR ''-'' \<or> d = CHR ''+'' then t else r);
                 ds = takeWhile isDigit r'
             in if ds = [] then (0, s)
                else (if neg then - int (digitsVal ds) else int (digitsVal ds),
                      dropWhile isDigit r'))
          else (0, s))"

text \<open>The longest prefix that is a \<open>StrUnsignedDecimalLiteral\<close>
  (\<^verbatim>\<open>Infinity\<close>, \<^verbatim>\<open>digits . digits? exp?\<close>, \<^verbatim>\<open>. digits exp?\<close>, \<^verbatim>\<open>digits exp?\<close>),
  its value and the rest of the string.\<close>

definition strUnsigned :: "string \<Rightarrow> (number \<times> string) option" where
  "strUnsigned s =
     (if take 8 s = ''Infinity'' then Some (PosInf, drop 8 s)
      else
        (let ip = takeWhile isDigit s; r1 = dropWhile isDigit s
         in case r1 of
              [] \<Rightarrow> if ip = [] then None else Some (Fin (of_nat (digitsVal ip)), [])
            | c # r2 \<Rightarrow>
                if c = CHR ''.'' then
                  (let fp = takeWhile isDigit r2; r3 = dropWhile isDigit r2
                   in if ip = [] \<and> fp = [] then None
                      else (let (e, r4) = expPart r3
                            in Some (Fin ((of_nat (digitsVal ip)
                                           + of_nat (digitsVal fp) / 10 ^ length fp) * pow10 e),
                                     r4)))
                else if ip = [] then None
                else (let (e, r4) = expPart r1
                      in Some (Fin (of_nat (digitsVal ip) * pow10 e), r4))))"

definition strDecimalLiteral :: "string \<Rightarrow> (number \<times> string) option" where
  "strDecimalLiteral s =
     (case s of
        [] \<Rightarrow> None
      | c # r \<Rightarrow>
          if c = CHR ''+'' then strUnsigned r
          else if c = CHR ''-'' then map_option (\<lambda>(v, t). (nneg v, t)) (strUnsigned r)
          else strUnsigned s)"

text \<open>\<^verbatim>\<open>parseFloat\<close> on a string: leading white space is skipped, the longest prefix that
  is a decimal literal is read, anything after it is ignored; no such prefix gives \<open>NaN\<close>.\<close>

definition parseFloat_str :: "string \<Rightarrow> number" where
  "parseFloat_str s =
     (case strDecimalLiteral (dropWhile isWhite s) of
        None \<Rightarrow> NaN
      | Some (v, _) \<Rightarrow> v)"

text \<open>\<open>NonDecimalIntegerLiteral\<close>: \<^verbatim>\<open>0x\<close>, \<^verbatim>\<open>0o\<close> or \<^verbatim>\<open>0b\<close> and at least one digit of
  that base.\<close>

definition radixDigit :: "char \<Rightarrow> nat option" where
  "radixDigit c =
     (let n = (of_char c :: nat)
      in if 48 \<le> n \<and> n \<le> 57 then Some (n - 48)
         else if 97 \<le> n \<and> n \<le> 102 then Some (n - 87)
         else if 65 \<le> n \<and> n \<le> 70 then Some (n - 55)
         else None)"

definition radixVal :: "nat \<Rightarrow> string \<Rightarrow> number" where
  "radixVal b ds =
     (if ds \<noteq> [] \<and> list_all (\<lambda>c. case radixDigit c of None \<Rightarrow> False | Some d \<Rightarrow> d < b) ds
      then Fin (of_nat (foldl (\<lambda>a c. b * a + the (radixDigit c)) 0 ds))
      else NaN)"

definition nonDecimal :: "string \<Rightarrow> number" where
  "nonDecimal s =
     (case s of
        z # x # ds \<Rightarrow>
          if z \<noteq> CHR ''0'' then NaN
          else if x = CHR ''x'' \<or> x = CHR ''X'' then radixVal 16 ds
          else if x = CHR ''o'' \<or> x = CHR ''O'' then radixVal 8 ds
          else if x = CHR ''b'' \<or> x = CHR ''B'' then radixVal 2 ds
          else NaN
      | _ \<Rightarrow> NaN)"

text \<open>\<open>StringToNumber\<close>, the conversion behind \<^verbatim>\<open>isNaN\<close>: white space is trimmed on both
  sides, the empty string is \<open>0\<close>, and the whole rest must be one literal.\<close>

definition stringToNumber :: "string \<Rightarrow> number" where
  "stringToNumber s =
     (let t = rev (dropWhile isWhite (rev (dropWhile isWhite s)))
      in if t = [] then Fin 0
         else (case strDecimalLiteral t of
                 Some (v, []) \<Rightarrow> v
               | _ \<Rightarrow> nonDecimal t))"

fun toNumber :: "jsval \<Rightarrow> number" where
  "toNumber JUndefined = NaN"
| "toNumber JNull = Fin 0"
| "toNumber (JBool b) = Fin (if b then 1 else 0)"
| "toNumber (JNum n) = n"
| "toNumber (JStr s) = stringToNumber s"

definition isNaN :: "jsval \<Rightarrow> bool" where
  "isNaN v = (toNumber v = NaN)"

text \<open>\<^verbatim>\<open>parseFloat\<close> converts its argument to a string first: \<^verbatim>\<open>"undefined"\<close>, \<^verbatim>\<open>"null"\<close>,
  \<^verbatim>\<open>"true"\<close> and \<^verbatim>\<open>"false"\<close> have no numeric prefix, and a Number is read back from its
  own string.\<close>

fun parseFloat :: "jsval \<Rightarrow> number" where
  "parseFloat JUndefined = NaN"
| "parseFloat JNull = NaN"
| "parseFloat (JBool b) = NaN"
| "parseFloat (JNum n) = n"
| "parseFloat (JStr s) = parseFloat_str s"

text \<open>The decimal digits of a natural number.\<close>

fun digits :: "nat \<Rightarrow> string" where
  "digits n = (if n < 10 then [digitChar n] else digits (n div 10) @ [digitChar (n mod 10)])"

declare digits.simps [simp del]

text \<open>\<^verbatim>\<open>x.toFixed(2)\<close>: a value that is not finite prints as its name; otherwise \<open>n\<close> is the
  integer closest to \<open>100 * |x|\<close> (the larger one at a tie), its digits are padded with
  zeros to three places, the point goes before the last two and a negative \<open>x\<close> gets a
  minus sign. From \<open>10\<^sup>2\<^sup>1\<close> on the language prints the Number's own string (exponent
  notation), which denotes the same value; the model keeps the fixed notation there.\<close>

definition toFixed2 :: "number \<Rightarrow> string" where
  "toFixed2 v =
     (case v of
        NaN \<Rightarrow> ''NaN''
      | PosInf \<Rightarrow> ''Infinity''
      | NegInf \<Rightarrow> ''-Infinity''
      | Fin x \<Rightarrow>
          (let n = nat \<lfloor>\<bar>x\<bar> * 100 + 1 / 2\<rfloor>;
               m = digits n;
               m' = replicate (3 - length m) (CHR ''0'') @ m;
               k = length m'
           in (if x < 0 then ''-'' else '''') @ take (k - 2) m' @ ''.'' @ drop (k - 2) m'))"

section \<open>The plain script\<close>

text \<open>\<^verbatim>\<open>calculerMoyenne(notes)\<close>, with the destructured \<^verbatim>\<open>{ cc, tp, exam }\<close> as its three
  arguments. Every return goes through \<^verbatim>\<open>toFixed(2)\<close>: the result is a string.\<close>

definition calculerMoyenne :: "jsval \<Rightarrow> jsval \<Rightarrow> jsval \<Rightarrow> string" where
  "calculerMoyenne cc tp exam =
     (let hasCC = (cc \<noteq> JNull \<and> cc \<noteq> JUndefined \<and> \<not> isNaN cc \<and> cc \<noteq> JStr []);
          hasTP = (tp \<noteq> JNull \<and> tp \<noteq> JUndefined \<and> \<not> isNaN tp \<and> tp \<noteq> JStr []);
          valCC = (if hasCC then parseFloat cc else Fin 0);
          valTP = (if hasTP then parseFloat tp else Fin 0);
          valExam = parseFloat exam
      in if hasCC \<and> hasTP then toFixed2 (valCC * Fin 0.3 + valTP * Fin 0.2 + valExam * Fin 0.5)
         else if hasCC \<or> hasTP then
           (let note1 = (if hasCC then valCC else valTP)
            in toFixed2 (note1 * Fin 0.4 + valExam * Fin 0.6))
         else toFixed2 valExam)"

text \<open>\<^verbatim>\<open>getStyleMoyenne(moyenne)\<close> returns one of four objects \<^verbatim>\<open>{ class, icon }\<close>, told
  apart by their class; the icon is left out.\<close>

definition getStyleMoyenne :: "jsval \<Rightarrow> string" where
  "getStyleMoyenne moyenne =
     (let moy = parseFloat moyenne
      in if nge moy (Fin 16) then ''grade-excellent''
         else if nge moy (Fin 10) then ''grade-good''
         else if nge moy (Fin 8) then ''grade-warning''
         else ''grade-danger'')"

section \<open>The React component\<close>

definition calculateAverage :: "jsval \<Rightarrow> jsval \<Rightarrow> jsval \<Rightarrow> number" where
  "calculateAverage cc tp exam =
     (let hasCC = (cc \<noteq> JStr [] \<and> cc \<noteq> JNull \<and> \<not> isNaN cc);
          hasTP = (tp \<noteq> JStr [] \<and> tp \<noteq> JNull \<and> \<not> isNaN tp);
          valCC = (if hasCC then parseFloat cc else Fin 0);
          valTP = (if hasTP then parseFloat tp else Fin 0);
          valExam = orZero (parseFloat exam)
      in if hasCC \<and> hasTP then valCC * Fin 0.3 + valTP * Fin 0.2 + valExam * Fin 0.5
         else if hasCC \<or> hasTP then
           (let note1 = (if hasCC then valCC else valTP)
            in note1 * Fin 0.4 + valExam * Fin 0.6)
         else valExam)"

text \<open>\<^verbatim>\<open>getStyleParams(avg)\<close> returns one of four objects, told apart by their label:
  \<^verbatim>\<open>Excellent\<close>, \<^verbatim>\<open>Valide\<close>, \<^verbatim>\<open>Rattrapage\<close>, \<^verbatim>\<open>Echec\<close> (the last three with their
  accents in the source).\<close>

datatype label = Excellent | Valide | Rattrapage | Echec

definition getStyleParams :: "number \<Rightarrow> label" where
  "getStyleParams avg =
     (if nge avg (Fin 16) then Excellent
      else if nge avg (Fin 10) then Valide
      else if nge avg (Fin 8) then Rattrapage
      else Echec)"

section \<open>Entries and aggregates\<close>

text \<open>An entry of the \<^verbatim>\<open>grades\<close> array. Form inputs store strings, the React form starts
  \<^verbatim>\<open>coef\<close> at the Number 1, and a stored entry may lack a property.\<close>

record grade =
  subject :: string
  coef :: jsval
  cc :: jsval
  tp :: jsval
  exam :: jsval






text \<open>The plain script keeps the entries in the global \<^verbatim>\<open>grades\<close> and writes its results
  into three elements of the page. \<^verbatim>\<open>updateStats\<close> reads the one and writes the others.\<close>

record page =
  grades :: "grade list"
  generalAverageEl :: string
  validatedCountEl :: string
  dangerCountEl :: string
  generalAverageColor :: string

text \<open>The body of the \<^verbatim>\<open>forEach\<close> in \<^verbatim>\<open>updateStats\<close>, on the four local variables
  \<^verbatim>\<open>(totalPoints, totalCoef, validated, danger)\<close>.\<close>

definition updateStats_step ::
  "number \<times> number \<times> nat \<times> nat \<Rightarrow> grade \<Rightarrow> number \<times> number \<times> nat \<times> nat" where
  "updateStats_step acc g =
     (case acc of (points, coefs, validated, danger) \<Rightarrow>
        (let avg = parseFloat (JStr (calculerMoyenne (cc g) (tp g) (exam g)));
             c = parseFloat (coef g)
         in (points + avg * c,
             coefs + c,
             (if nge avg (Fin 10) then validated + 1 else validated),
             (if nless avg (Fin 8) then danger + 1 else danger))))"

definition updateStats_loop :: "grade list \<Rightarrow> number \<times> number \<times> nat \<times> nat" where
  "updateStats_loop gs = foldl updateStats_step (Fin 0, Fin 0, 0, 0) gs"

definition updateStats :: "page \<Rightarrow> page" where
  "updateStats p =
     (if length (grades p) = 0 then
        p\<lparr>generalAverageEl := ''-'', validatedCountEl := ''-'', dangerCountEl := ''-''\<rparr>
      else
        (case updateStats_loop (grades p) of (points, coefs, validated, danger) \<Rightarrow>
           (let avgText = (if ngt coefs (Fin 0) then toFixed2 (ndiv points coefs)
                           else ''0.00'')
            in p\<lparr>generalAverageEl := avgText,
                 validatedCountEl := digits validated,
                 dangerCountEl := digits danger,
                 generalAverageColor :=
                   (if getStyleMoyenne (JStr avgText) = ''grade-excellent'' then ''#d4edda''
                    else ''white'')\<rparr>)))"

section \<open>Notions used to state the properties\<close>

text \<open>A score is present when it passes the test both functions apply to \<^verbatim>\<open>cc\<close> and
  \<^verbatim>\<open>tp\<close>: not the empty string, not \<^verbatim>\<open>null\<close>, and not \<open>NaN\<close> as a Number. The plain
  script also excludes \<^verbatim>\<open>undefined\<close>, which is \<open>NaN\<close> as a Number anyway.\<close>

definition present :: "jsval \<Rightarrow> bool" where
  "present v = (v \<noteq> JStr [] \<and> v \<noteq> JNull \<and> \<not> isNaN v)"

text \<open>The value \<^verbatim>\<open>toFixed(2)\<close> prints: \<open>x\<close> rounded to hundredths, a tie away from zero.\<close>

definition round2 :: "rat \<Rightarrow> rat" where
  "round2 x = (if x < 0 then - 1 else 1) * of_nat (nat \<lfloor>\<bar>x\<bar> * 100 + 1 / 2\<rfloor>) / 100"











text \<open>Concrete data: an entry from its four values, the three entries of the worked
  scenario \<^verbatim>\<open>[{cc:12, tp:14, exam:10, coef:2}, {exam:16, coef:1}, {tp:6, exam:4, coef:1}]\<close>,
  and a page whose elements are still empty.\<close>

definition entry :: "jsval \<Rightarrow> jsval \<Rightarrow> jsval \<Rightarrow> jsval \<Rightarrow> grade" where
  "entry c t e k = \<lparr>subject = ''m'', coef = k, cc = c, tp = t, exam = e\<rparr>"

definition scenario :: "grade list" where
  "scenario =
     [entry (JNum (Fin 12)) (JNum (Fin 14)) (JNum (Fin 10)) (JNum (Fin 2)),
      entry JUndefined JUndefined (JNum (Fin 16)) (JNum (Fin 1)),
      entry JUndefined (JNum (Fin 6)) (JNum (Fin 4)) (JNum (Fin 1))]"

definition blankPage :: page where
  "blankPage = \<lparr>grades = [], generalAverageEl = [], validatedCountEl = [],
                 dangerCountEl = [], generalAverageColor = []\<rparr>"





section \<open>Facts about numbers, printing and parsing\<close>

subsection \<open>Comparisons of finite numbers\<close>

lemma nge_Fin [simp]: "nge (Fin x) (Fin y) = (y \<le> x)"
  by (auto simp: nge_def)

lemma ngt_Fin [simp]: "ngt (Fin x) (Fin y) = (y < x)"
  by (simp add: ngt_def)

subsection \<open>Digits\<close>

lemma digits_lt10: "n < 10 \<Longrightarrow> digits n = [digitChar n]"
  by (simp add: digits.simps)

lemma digits_ge10: "\<not> n < 10 \<Longrightarrow> digits n = digits (n div 10) @ [digitChar (n mod 10)]"
  by (subst digits.simps) simp






lemma digitsVal_Nil [simp]: "digitsVal [] = 0"
  by (simp add: digitsVal_def)





subsection \<open>Reading back what \<^verbatim>\<open>toFixed(2)\<close> prints\<close>













subsection \<open>The two subject averages by cases\<close>

lemma calculateAverage_cases:
  "calculateAverage a b e =
     (if present a \<and> present b
        then parseFloat a * Fin 0.3 + parseFloat b * Fin 0.2 + orZero (parseFloat e) * Fin 0.5
      else if present a then parseFloat a * Fin 0.4 + orZero (parseFloat e) * Fin 0.6
      else if present b then parseFloat b * Fin 0.4 + orZero (parseFloat e) * Fin 0.6
      else orZero (parseFloat e))"
  by (simp add: calculateAverage_def present_def Let_def)

lemma calculerMoyenne_cases:
  "calculerMoyenne a b e =
     (if present a \<and> present b
        then toFixed2 (parseFloat a * Fin 0.3 + parseFloat b * Fin 0.2 + parseFloat e * Fin 0.5)
      else if present a then toFixed2 (parseFloat a * Fin 0.4 + parseFloat e * Fin 0.6)
      else if present b then toFixed2 (parseFloat b * Fin 0.4 + parseFloat e * Fin 0.6)
      else toFixed2 (parseFloat e))"
proof -
  have "(v \<noteq> JNull \<and> v \<noteq> JUndefined \<and> \<not> isNaN v \<and> v \<noteq> JStr []) = present v" for v
    by (auto simp: present_def isNaN_def)
  then show ?thesis by (simp add: calculerMoyenne_def Let_def)
qed

lemma orZero_id: "v \<noteq> NaN \<Longrightarrow> orZero v = v"
  by (auto simp: orZero_def)


lemma NaN_times [simp]: "NaN * v = NaN"
  by (cases v) simp_all

lemma plus_NaN [simp]: "v + NaN = NaN"
  by (cases v) simp_all

lemma calculerMoyenne_NaN: "parseFloat e = NaN \<Longrightarrow> calculerMoyenne a b e = ''NaN''"
  by (simp add: calculerMoyenne_cases toFixed2_def)

subsection \<open>Sums over finite entries\<close>







subsection \<open>The loop of \<^verbatim>\<open>updateStats\<close>\<close>







subsection \<open>Evaluation on concrete inputs\<close>

lemma floor_rat_numeral: "\<lfloor>numeral a / numeral b :: rat\<rfloor> = numeral a div numeral b"
  using floor_divide_of_int_eq [of "numeral a" "numeral b", where ?'a = rat] by simp

lemma digitChar_eval:
  "digitChar 0 = CHR ''0''" "digitChar 1 = CHR ''1''" "digitChar 2 = CHR ''2''"
  "digitChar 3 = CHR ''3''" "digitChar 4 = CHR ''4''" "digitChar 5 = CHR ''5''"
  "digitChar 6 = CHR ''6''" "digitChar 7 = CHR ''7''" "digitChar 8 = CHR ''8''"
  "digitChar 9 = CHR ''9''"
  by code_simp+

lemma digitChar_Suc_eval:
  "digitChar (Suc 0) = CHR ''1''" "digitChar (Suc (Suc 0)) = CHR ''2''"
  using digitChar_eval(2,3) by (simp_all add: numeral_2_eq_2)

lemmas parse_eval = parseFloat_str_def strDecimalLiteral_def strUnsigned_def isWhite_def
  isDigit_def digitsVal_def digitVal_def expPart_def pow10_def stringToNumber_def
  nonDecimal_def radixVal_def radixDigit_def present_def isNaN_def Let_def

lemmas print_eval = toFixed2_def digits_lt10 digits_ge10 digitChar_eval digitChar_Suc_eval
  floor_rat_numeral round2_def

lemmas avg_eval = calculerMoyenne_cases calculateAverage_cases orZero_def parse_eval print_eval

section \<open>The subject average\<close>




text \<open>
  C2. With a missing exam \<^verbatim>\<open>calculateAverage\<close> reads the exam as 0
  (\<^verbatim>\<open>parseFloat(exam) || 0\<close>), but \<^verbatim>\<open>calculerMoyenne\<close> has no such default
  (\<^verbatim>\<open>parseFloat(exam)\<close> alone): its result is the string \<^verbatim>\<open>"NaN"\<close>, for an empty exam
  field as for an entry without the property, where the claim has \<^verbatim>\<open>"0.00"\<close> and
  \<^verbatim>\<open>"6.40"\<close>. A score of white space alone passes the presence test of either function
  (as a Number it is 0) and is then read by \<^verbatim>\<open>parseFloat\<close> as \<open>NaN\<close>.
\<close>

theorem missing_exam_is_NaN:
  "calculerMoyenne (JStr []) (JStr []) (JStr []) = ''NaN'' \<and>
   calculerMoyenne (JStr ''12'') (JStr ''14'') JUndefined = ''NaN'' \<and>
   calculateAverage (JStr []) (JStr []) (JStr []) = Fin 0 \<and>
   calculateAverage (JStr ''12'') (JStr ''14'') JUndefined = Fin 6.4 \<and>
   toFixed2 (Fin 0) = ''0.00'' \<and> toFixed2 (Fin 6.4) = ''6.40'' \<and>
   calculateAverage (JStr '' '') (JStr []) (JStr ''10'') = NaN"
proof -
  have "calculerMoyenne (JStr []) (JStr []) (JStr []) = ''NaN''"
    by (simp add: avg_eval)
  moreover have "calculerMoyenne (JStr ''12'') (JStr ''14'') JUndefined = ''NaN''"
    by (simp add: avg_eval)
  moreover have "calculateAverage (JStr []) (JStr []) (JStr []) = Fin 0"
    by (simp add: avg_eval)
  moreover have "calculateAverage (JStr ''12'') (JStr ''14'') JUndefined = Fin 6.4"
    by (simp add: avg_eval)
  moreover have "toFixed2 (Fin 0) = ''0.00''" "toFixed2 (Fin 6.4) = ''6.40''"
    by (simp_all add: print_eval)
  moreover have "calculateAverage (JStr '' '') (JStr []) (JStr ''10'') = NaN"
    by (simp add: avg_eval)
  ultimately show ?thesis by blast
qed







text \<open>
  C10. Whenever \<^verbatim>\<open>parseFloat\<close> reads a number from the exam, \<^verbatim>\<open>calculerMoyenne\<close>
  returns exactly the string that \<^verbatim>\<open>toFixed(2)\<close> prints for the result of
  \<^verbatim>\<open>calculateAverage\<close> on the same three values.
\<close>

theorem implementations_agree:
  assumes "parseFloat e \<noteq> NaN"
  shows "calculerMoyenne a b e = toFixed2 (calculateAverage a b e)"
proof -
  from assms have exam: "orZero (parseFloat e) = parseFloat e"
    by (rule orZero_id)
  show ?thesis
  proof (cases "present a \<and> present b")
    case True
    then show ?thesis
      by (simp add: calculerMoyenne_cases calculateAverage_cases exam)
  next
    case False
    then show ?thesis
      by (cases "present a"; cases "present b")
         (simp_all add: calculerMoyenne_cases calculateAverage_cases exam)
  qed
qed

theorem implementations_agree_witness:
  "parseFloat (JStr ''9.5'') \<noteq> NaN \<and>
   calculerMoyenne (JStr ''12'') (JStr []) (JStr ''9.5'')
     = toFixed2 (calculateAverage (JStr ''12'') (JStr []) (JStr ''9.5'')) \<and>
   toFixed2 (calculateAverage (JStr ''12'') (JStr []) (JStr ''9.5'')) = ''10.50''"
proof -
  have p: "parseFloat (JStr ''9.5'') \<noteq> NaN" by (simp add: parse_eval)
  have s: "toFixed2 (calculateAverage (JStr ''12'') (JStr []) (JStr ''9.5'')) = ''10.50''"
    by (simp add: avg_eval)
  from implementations_agree [OF p, of "JStr ''12''" "JStr []"] p s show ?thesis
    by blast
qed

section \<open>The status of an average\<close>

text \<open>
  C8. For every finite average the classification returns exactly one of four tiers with
  closed lower bounds: Excellent from 16, Good from 10 below 16, Warning from 8 below 10,
  Danger below 8; so 16.00 is Excellent, 15.99 and 10.00 are Good, 9.99 and 8.00 are
  Warning and 7.99 is Danger. This holds for \<^verbatim>\<open>getStyleParams\<close> (labels) and for
  \<^verbatim>\<open>getStyleMoyenne\<close> (classes), on a Number as on the string of two decimals.
\<close>

theorem classify_tiers:
  "(getStyleParams (Fin x) = Excellent) = (16 \<le> x) \<and>
   (getStyleParams (Fin x) = Valide) = (10 \<le> x \<and> x < 16) \<and>
   (getStyleParams (Fin x) = Rattrapage) = (8 \<le> x \<and> x < 10) \<and>
   (getStyleParams (Fin x) = Echec) = (x < 8) \<and>
   (getStyleMoyenne (JNum (Fin x)) = ''grade-excellent'') = (16 \<le> x) \<and>
   (getStyleMoyenne (JNum (Fin x)) = ''grade-good'') = (10 \<le> x \<and> x < 16) \<and>
   (getStyleMoyenne (JNum (Fin x)) = ''grade-warning'') = (8 \<le> x \<and> x < 10) \<and>
   (getStyleMoyenne (JNum (Fin x)) = ''grade-danger'') = (x < 8) \<and>
   map getStyleParams [Fin 16.00, Fin 15.99, Fin 10.00, Fin 9.99, Fin 8.00, Fin 7.99]
     = [Excellent, Valide, Valide, Rattrapage, Rattrapage, Echec] \<and>
   map (\<lambda>s. getStyleMoyenne (JStr s)) [''16.00'', ''15.99'', ''10.00'', ''9.99'', ''8.00'', ''7.99'']
     = [''grade-excellent'', ''grade-good'', ''grade-good'', ''grade-warning'',
        ''grade-warning'', ''grade-danger'']"
proof -
  have params: "(getStyleParams (Fin x) = Excellent) = (16 \<le> x)"
    "(getStyleParams (Fin x) = Valide) = (10 \<le> x \<and> x < 16)"
    "(getStyleParams (Fin x) = Rattrapage) = (8 \<le> x \<and> x < 10)"
    "(getStyleParams (Fin x) = Echec) = (x < 8)"
    by (auto simp: getStyleParams_def)
  have moyenne: "(getStyleMoyenne (JNum (Fin x)) = ''grade-excellent'') = (16 \<le> x)"
    "(getStyleMoyenne (JNum (Fin x)) = ''grade-good'') = (10 \<le> x \<and> x < 16)"
    "(getStyleMoyenne (JNum (Fin x)) = ''grade-warning'') = (8 \<le> x \<and> x < 10)"
    "(getStyleMoyenne (JNum (Fin x)) = ''grade-danger'') = (x < 8)"
    by (auto simp: getStyleMoyenne_def Let_def)
  have ex1: "map getStyleParams [Fin 16.00, Fin 15.99, Fin 10.00, Fin 9.99, Fin 8.00, Fin 7.99]
     = [Excellent, Valide, Valide, Rattrapage, Rattrapage, Echec]"
    by (simp add: getStyleParams_def)
  have ex2: "map (\<lambda>s. getStyleMoyenne (JStr s))
               [''16.00'', ''15.99'', ''10.00'', ''9.99'', ''8.00'', ''7.99'']
     = [''grade-excellent'', ''grade-good'', ''grade-good'', ''grade-warning'',
        ''grade-warning'', ''grade-danger'']"
    by (simp add: getStyleMoyenne_def parse_eval)
  from params moyenne ex1 ex2 show ?thesis by blast
qed

section \<open>The aggregate\<close>




lemma entry_sel [simp]:
  "cc (entry c t e k) = c" "tp (entry c t e k) = t" "exam (entry c t e k) = e"
  "coef (entry c t e k) = k"
  by (simp_all add: entry_def)



















text \<open>
  C9. The aggregate computation reads the entries and nothing else, and changes none of
  them: \<^verbatim>\<open>updateStats\<close> leaves \<^verbatim>\<open>grades\<close> as it is, running it a second time changes
  nothing, and what it writes is determined by the entries alone, whatever the page
  showed before. The subject averages and the React values are functions of their
  arguments.
\<close>

theorem aggregate_reads_only:
  "grades (updateStats p) = grades p \<and>
   updateStats (updateStats p) = updateStats p \<and>
   (grades p = grades q \<longrightarrow>
      generalAverageEl (updateStats p) = generalAverageEl (updateStats q) \<and>
      validatedCountEl (updateStats p) = validatedCountEl (updateStats q) \<and>
      dangerCountEl (updateStats p) = dangerCountEl (updateStats q))"
proof -
  have frame: "grades (updateStats p) = grades p"
    by (simp add: updateStats_def Let_def split: prod.splits)
  have twice: "updateStats (updateStats p) = updateStats p"
    by (simp add: updateStats_def Let_def split: prod.splits)
  have same: "grades p = grades q \<longrightarrow>
      generalAverageEl (updateStats p) = generalAverageEl (updateStats q) \<and>
      validatedCountEl (updateStats p) = validatedCountEl (updateStats q) \<and>
      dangerCountEl (updateStats p) = dangerCountEl (updateStats q)"
    by (simp add: updateStats_def Let_def split: prod.splits)
  from frame twice same show ?thesis by blast
qed

theorem aggregate_reads_only_witness:
  "grades (blankPage\<lparr>grades := scenario\<rparr>)
     = grades (blankPage\<lparr>grades := scenario, generalAverageEl := ''-''\<rparr>) \<and>
   generalAverageEl (updateStats (blankPage\<lparr>grades := scenario\<rparr>))
     = generalAverageEl (updateStats (blankPage\<lparr>grades := scenario, generalAverageEl := ''-''\<rparr>)) \<and>
   validatedCountEl (updateStats (blankPage\<lparr>grades := scenario\<rparr>))
     = validatedCountEl (updateStats (blankPage\<lparr>grades := scenario, generalAverageEl := ''-''\<rparr>)) \<and>
   dangerCountEl (updateStats (blankPage\<lparr>grades := scenario\<rparr>))
     = dangerCountEl (updateStats (blankPage\<lparr>grades := scenario, generalAverageEl := ''-''\<rparr>)) \<and>
   blankPage\<lparr>grades := scenario\<rparr> \<noteq> blankPage\<lparr>grades := scenario, generalAverageEl := ''-''\<rparr>"
proof -
  have g: "grades (blankPage\<lparr>grades := scenario\<rparr>)
           = grades (blankPage\<lparr>grades := scenario, generalAverageEl := ''-''\<rparr>)"
    by simp
  have ne: "blankPage\<lparr>grades := scenario\<rparr>
            \<noteq> blankPage\<lparr>grades := scenario, generalAverageEl := ''-''\<rparr>"
    by (simp add: blankPage_def)
  from aggregate_reads_only [of "blankPage\<lparr>grades := scenario\<rparr>"
         "blankPage\<lparr>grades := scenario, generalAverageEl := ''-''\<rparr>"] g ne
  show ?thesis by blast
qed

end
